theory Spec2Isabelle
  imports Main "HOL-Library.Word"
begin

unbundle bit_operations_syntax

section \<open>Shared conventions of the embedding of common/types.go\<close>

text \<open>
  Go values are embedded as follows.
  \<^item> \<open>byte\<close> and \<open>uint8\<close> are \<open>8 word\<close>, \<open>uint64\<close> and \<open>int64\<close> are \<open>64 word\<close>
    (addition wraps; \<open>\<le>\<close> and \<open><\<close> on words compare unsigned, \<open>sint\<close> reads an \<open>int64\<close>).
  \<^item> \<open>[]byte\<close> is a list of bytes; a Go \<open>string\<close> is a byte sequence and is embedded as
    \<open>string\<close> (a list of 8-bit \<open>char\<close>), so \<open>len(s)\<close> is \<open>length s\<close> and counts bytes.
  \<^item> \<open>Hash\<close> and \<open>Address\<close> are lists of bytes whose length is \<open>HashLength\<close> and
    \<open>AddressLength\<close>.
  \<^item> \<open>*big.Int\<close> in a parameter that is only read is \<open>int option\<close>: \<open>None\<close> is the nil
    pointer, \<open>Some v\<close> a pointer to the unbounded integer \<open>v\<close>.
  \<^item> \<open>error\<close> results are \<open>error option\<close>: \<open>None\<close> is Go's \<open>nil\<close> (the check passed),
    \<open>Some (Errorf msg)\<close> is \<open>fmt.Errorf(msg)\<close>.
\<close>

type_synonym byte = "8 word"
type_synonym uint8 = "8 word"
type_synonym uint64 = "64 word"
type_synonym int64 = "64 word"
type_synonym Hash = "byte list"
type_synonym Address = "byte list"

datatype error = Errorf string

definition HashLength :: nat where
  "HashLength = 32"

definition AddressLength :: nat where
  "AddressLength = 20"

text \<open>\<open>Address{}\<close>, the zero value of the array type.\<close>

definition Address_zero :: Address where
  "Address_zero = replicate AddressLength 0"

text \<open>
  Modelled from the spec: \<open>Big0\<close> is declared in common/big.go, which is not among the
  sources; the spec compares the amounts with the integer zero.
\<close>

definition Big0 :: int where
  "Big0 = 0"

text \<open>\<open>x.Cmp(y)\<close> and \<open>new(big.Int).Mul(x, y)\<close> of math/big, on unbounded integers.\<close>

definition Cmp :: "int \<Rightarrow> int \<Rightarrow> int" where
  "Cmp x y = (if x < y then - 1 else if x = y then 0 else 1)"

definition Mul :: "int \<Rightarrow> int \<Rightarrow> int" where
  "Mul x y = x * y"

text \<open>
  \<open>nil_or p P\<close> is the Go condition \<open>p == nil || P(*p)\<close>: the right operand is evaluated
  only for a pointer that is not nil.
\<close>

definition nil_or :: "'a option \<Rightarrow> ('a \<Rightarrow> bool) \<Rightarrow> bool" where
  "nil_or p P = (case p of None \<Rightarrow> True | Some v \<Rightarrow> P v)"

section \<open>Parameter types\<close>

record GenAssetParam =
  Name :: string
  Symbol :: string
  Decimals :: uint8
  Total :: "int option"
  CanChange :: bool
  Description :: string

record BuyTicketParam =
  Start :: uint64
  End :: uint64

record SendAssetParam =
  AssetID :: Hash
  To :: Address
  Value :: "int option"

record AssetValueChangeParam =
  AssetID :: Hash
  To :: Address
  Value :: "int option"
  IsInc :: bool

record AssetValueChangeExParam =
  AssetID :: Hash
  To :: Address
  Value :: "int option"
  IsInc :: bool
  TransacData :: string

text \<open>\<open>TimeLockType\<close> is declared outside the sources; \<open>Check\<close> does not read the field.\<close>

record 'tlt TimeLockParam =
  Type :: 'tlt
  AssetID :: Hash
  To :: Address
  StartTime :: uint64
  EndTime :: uint64
  Value :: "int option"

record MakeSwapParam =
  FromAssetID :: Hash
  FromStartTime :: uint64
  FromEndTime :: uint64
  MinFromAmount :: "int option"
  ToAssetID :: Hash
  ToStartTime :: uint64
  ToEndTime :: uint64
  MinToAmount :: "int option"
  SwapSize :: "int option"
  Targes :: "Address list"
  Time :: "int option"
  Description :: string

record TakeSwapParam =
  SwapID :: Hash
  Size :: "int option"

text \<open>
  The stored swap that \<open>TakeSwapParam.Check\<close> receives by pointer; the check only reads it.
\<close>

record Swap =
  ID :: Hash
  Owner :: Address
  FromAssetID :: Hash
  FromStartTime :: uint64
  FromEndTime :: uint64
  MinFromAmount :: "int option"
  ToAssetID :: Hash
  ToStartTime :: uint64
  ToEndTime :: uint64
  MinToAmount :: "int option"
  SwapSize :: "int option"
  Targes :: "Address list"
  Time :: "int option"
  Description :: string

section \<open>The validation gate\<close>

definition GenAssetParam_Check :: "GenAssetParam \<Rightarrow> int option \<Rightarrow> error option" where
  "GenAssetParam_Check p blockNumber =
    (if length (GenAssetParam.Name p) = 0 \<or> length (GenAssetParam.Symbol p) = 0
        \<or> nil_or (GenAssetParam.Total p) (\<lambda>total. Cmp total Big0 < 0)
     then Some (Errorf ''GenAssetFunc name, symbol and total must be set'')
     else if GenAssetParam.Decimals p > 18
     then Some (Errorf ''GenAssetFunc decimals must be between 0 and 18'')
     else if length (GenAssetParam.Description p) > 1024
     then Some (Errorf ''GenAsset description length is greater than 1024 chars'')
     else if length (GenAssetParam.Name p) > 128
     then Some (Errorf ''GenAsset name length is greater than 128 chars'')
     else if length (GenAssetParam.Symbol p) > 64
     then Some (Errorf ''GenAsset symbol length is greater than 64 chars'')
     else None)"

definition SendAssetParam_Check :: "SendAssetParam \<Rightarrow> int option \<Rightarrow> error option" where
  "SendAssetParam_Check p blockNumber =
    (if nil_or (SendAssetParam.Value p) (\<lambda>v. Cmp v Big0 \<le> 0)
     then Some (Errorf ''Value must be set and greater than 0'')
     else if SendAssetParam.To p = Address_zero
     then Some (Errorf ''receiver address must be set and not zero address'')
     else None)"

definition TimeLockParam_Check ::
  "'tlt TimeLockParam \<Rightarrow> int option \<Rightarrow> uint64 \<Rightarrow> error option" where
  "TimeLockParam_Check p blockNumber timestamp =
    (if nil_or (TimeLockParam.Value p) (\<lambda>v. Cmp v Big0 \<le> 0)
     then Some (Errorf ''Value must be set and greater than 0'')
     else if TimeLockParam.StartTime p > TimeLockParam.EndTime p
     then Some (Errorf ''StartTime must be less than or equal to EndTime'')
     else if TimeLockParam.EndTime p < timestamp
     then Some (Errorf ''EndTime must be greater than latest block time'')
     else None)"

text \<open>
  \<open>start+30*24*3600\<close> and \<open>timestamp+3*3600\<close> are \<open>uint64\<close> additions and wrap;
  \<open>7*24*3600+adjust\<close> is an \<open>int64\<close> addition, and \<open>uint64(...)\<close> keeps its 64 bits.
\<close>

definition BuyTicketParam_Check ::
  "BuyTicketParam \<Rightarrow> int option \<Rightarrow> uint64 \<Rightarrow> int64 \<Rightarrow> error option" where
  "BuyTicketParam_Check p blockNumber timestamp adjust =
    (let start = Start p; end' = End p in
     if end' \<le> start \<or> end' < start + 30 * 24 * 3600
     then Some (Errorf ''BuyTicket end must be lower than start + 1 month'')
     else if timestamp \<noteq> 0
     then (if start > timestamp + 3 * 3600
           then Some (Errorf ''BuyTicket start must be lower than latest block time + 3 hour'')
           else if end' < timestamp + (7 * 24 * 3600 + adjust)
           then Some (Errorf ''BuyTicket end must be greater than latest block time + 1 week'')
           else None)
     else None)"

definition AssetValueChangeParam_Check ::
  "AssetValueChangeParam \<Rightarrow> int option \<Rightarrow> error option" where
  "AssetValueChangeParam_Check p blockNumber =
    (if nil_or (AssetValueChangeParam.Value p) (\<lambda>v. Cmp v Big0 \<le> 0)
     then Some (Errorf ''Value must be set and greater than 0'')
     else None)"

definition AssetValueChangeExParam_Check ::
  "AssetValueChangeExParam \<Rightarrow> int option \<Rightarrow> error option" where
  "AssetValueChangeExParam_Check p blockNumber =
    (if nil_or (AssetValueChangeExParam.Value p) (\<lambda>v. Cmp v Big0 \<le> 0)
     then Some (Errorf ''Value must be set and greater than 0'')
     else if length (TransacData p) > 256
     then Some (Errorf ''TransacData must not be greater than 256'')
     else None)"

text \<open>
  In the two swap checks \<open>the\<close> reads a pointer only after the return that rejects nil.
\<close>

definition MakeSwapParam_Check :: "MakeSwapParam \<Rightarrow> int option \<Rightarrow> uint64 \<Rightarrow> error option" where
  "MakeSwapParam_Check p blockNumber timestamp =
    (if nil_or (MakeSwapParam.MinFromAmount p) (\<lambda>v. Cmp v Big0 \<le> 0)
        \<or> nil_or (MakeSwapParam.MinToAmount p) (\<lambda>v. Cmp v Big0 \<le> 0)
        \<or> nil_or (MakeSwapParam.SwapSize p) (\<lambda>v. Cmp v Big0 \<le> 0)
     then Some (Errorf ''MinFromAmount,MinToAmount and SwapSize must be ge 1'')
     else if length (MakeSwapParam.Description p) > 1024
     then Some (Errorf ''MakeSwap description length is greater than 1024 chars'')
     else let total = Mul (the (MakeSwapParam.MinFromAmount p)) (the (MakeSwapParam.SwapSize p)) in
     if Cmp total Big0 \<le> 0
     then Some (Errorf ''size * MinFromAmount too large'')
     else if MakeSwapParam.FromStartTime p > MakeSwapParam.FromEndTime p
     then Some (Errorf ''MakeSwap FromStartTime > FromEndTime'')
     else if MakeSwapParam.ToStartTime p > MakeSwapParam.ToEndTime p
     then Some (Errorf ''MakeSwap ToStartTime > ToEndTime'')
     else if MakeSwapParam.FromEndTime p \<le> timestamp
     then Some (Errorf ''MakeSwap FromEndTime <= latest blockTime'')
     else if MakeSwapParam.ToEndTime p \<le> timestamp
     then Some (Errorf ''MakeSwap ToEndTime <= latest blockTime'')
     else None)"

definition TakeSwapParam_Check ::
  "TakeSwapParam \<Rightarrow> int option \<Rightarrow> Swap \<Rightarrow> uint64 \<Rightarrow> error option" where
  "TakeSwapParam_Check p blockNumber swap timestamp =
    (if nil_or (Size p) (\<lambda>size. Cmp size Big0 \<le> 0
          \<or> nil_or (Swap.SwapSize swap) (\<lambda>swapSize. Cmp size swapSize > 0))
     then Some (Errorf ''Size must be ge 1 and le Swapsize'')
     else if nil_or (Swap.MinFromAmount swap) (\<lambda>v. Cmp v Big0 \<le> 0)
     then Some (Errorf ''MinFromAmount less than  equal to zero'')
     else if nil_or (Swap.MinToAmount swap) (\<lambda>v. Cmp v Big0 \<le> 0)
     then Some (Errorf ''MinToAmount less than  equal to zero'')
     else let fromTotal = Mul (the (Swap.MinFromAmount swap)) (the (Size p)) in
     if Cmp fromTotal Big0 \<le> 0
     then Some (Errorf ''fromTotal less than  equal to zero'')
     else let toTotal = Mul (the (Swap.MinToAmount swap)) (the (Size p)) in
     if Cmp toTotal Big0 \<le> 0
     then Some (Errorf ''toTotal less than  equal to zero'')
     else if Swap.FromEndTime swap \<le> timestamp
     then Some (Errorf ''swap expired: FromEndTime <= latest blockTime'')
     else if Swap.ToEndTime swap \<le> timestamp
     then Some (Errorf ''swap expired: ToEndTime <= latest blockTime'')
     else None)"

text \<open>
  The words "set and strictly positive" of the spec, for an amount passed by pointer.
\<close>

definition set_and_positive :: "int option \<Rightarrow> bool" where
  "set_and_positive x = (case x of None \<Rightarrow> False | Some v \<Rightarrow> 0 < v)"

text \<open>
  The stored swap of the spec's example, \<open>Swap{SwapSize:10, MinFromAmount:100,
  MinToAmount:50}\<close>, with both windows ending at time 2000.
\<close>

definition swap10 :: Swap where
  "swap10 = \<lparr>Swap.ID = [], Owner = [], FromAssetID = [], FromStartTime = 0,
     FromEndTime = 2000, MinFromAmount = Some 100, ToAssetID = [], ToStartTime = 0,
     ToEndTime = 2000, MinToAmount = Some 50, SwapSize = Some 10, Targes = [],
     Time = None, Description = ''''\<rparr>"

text \<open>
  The spec's example \<open>MakeSwapParam{MinFromAmount:100, MinToAmount:100, SwapSize:10,
  FromEndTime:E1, ToEndTime:E2}\<close>; the fields it does not name have Go's zero values.
\<close>

definition makeSwap100 :: "uint64 \<Rightarrow> uint64 \<Rightarrow> MakeSwapParam" where
  "makeSwap100 E1 E2 = \<lparr>MakeSwapParam.FromAssetID = replicate 32 0, FromStartTime = 0,
     FromEndTime = E1, MinFromAmount = Some 100, ToAssetID = replicate 32 0, ToStartTime = 0,
     ToEndTime = E2, MinToAmount = Some 100, SwapSize = Some 10, Targes = [],
     Time = None, Description = ''''\<rparr>"

section \<open>Fixed-length identifiers\<close>

text \<open>
  Go's built-in \<open>copy(dst, src)\<close> overwrites the first \<open>min(len(dst), len(src))\<close> elements
  of \<open>dst\<close>; the result is the new content of \<open>dst\<close>.
\<close>

definition copy :: "'a list \<Rightarrow> 'a list \<Rightarrow> 'a list" where
  "copy dst src = (let n = min (length dst) (length src) in take n src @ drop n dst)"

text \<open>
  \<open>SetBytes\<close> writes through the slice \<open>h[HashLength-len(b):]\<close> of the receiver array, so
  the bytes before that offset keep their old value. \<open>len(h)\<close> of the array pointer is the
  array length.
\<close>

definition Hash_SetBytes :: "Hash \<Rightarrow> byte list \<Rightarrow> Hash" where
  "Hash_SetBytes h b =
    (let b = (if length b > length h then drop (length b - HashLength) b else b);
         k = HashLength - length b
     in take k h @ copy (drop k h) b)"

text \<open>\<open>var h Hash\<close> is the zero array.\<close>

definition BytesToHash :: "byte list \<Rightarrow> Hash" where
  "BytesToHash b = Hash_SetBytes (replicate HashLength 0) b"

definition Hash_Bytes :: "Hash \<Rightarrow> byte list" where
  "Hash_Bytes h = h"

definition Address_SetBytes :: "Address \<Rightarrow> byte list \<Rightarrow> Address" where
  "Address_SetBytes a b =
    (let b = (if length b > length a then drop (length b - AddressLength) b else b);
         k = AddressLength - length b
     in take k a @ copy (drop k a) b)"

definition BytesToAddress :: "byte list \<Rightarrow> Address" where
  "BytesToAddress b = Address_SetBytes (replicate AddressLength 0) b"

definition Address_Bytes :: "Address \<Rightarrow> byte list" where
  "Address_Bytes a = a"

subsection \<open>Hexadecimal text\<close>

text \<open>
  \<open>hex.EncodeToString\<close> of Go's encoding/hex: two characters of \<open>hextable\<close> per byte, the
  high nibble first.
\<close>

definition hextable :: string where
  "hextable = ''0123456789abcdef''"

fun EncodeToString :: "byte list \<Rightarrow> string" where
  "EncodeToString [] = []"
| "EncodeToString (v # src) =
     hextable ! unat (drop_bit 4 v) # hextable ! unat (v AND 0x0f) # EncodeToString src"

text \<open>The conversions \<open>[]byte(s)\<close> and \<open>string(b)\<close>.\<close>

definition bytes_of_string :: "string \<Rightarrow> byte list" where
  "bytes_of_string s = map of_char s"

definition string_of_bytes :: "byte list \<Rightarrow> string" where
  "string_of_bytes b = map (\<lambda>x. char_of (unat x)) b"

text \<open>
  The loop of \<open>Address.Hex\<close> over \<open>i\<close>, with the byte slice \<open>result\<close> as state. An index
  \<open>i/2\<close> outside \<open>hash\<close> is Go's run-time panic, the value \<open>None\<close>.
\<close>

function Hex_loop :: "byte list \<Rightarrow> byte list \<Rightarrow> nat \<Rightarrow> byte list option" where
  "Hex_loop hash result i =
    (if i < length result
     then (if i div 2 < length hash
           then let hashByte = hash ! (i div 2);
                    hashByte = (if i mod 2 = 0 then drop_bit 4 hashByte else hashByte AND 0xf);
                    result = (if result ! i > of_char CHR ''9'' \<and> hashByte > 7
                              then result[i := result ! i - 32] else result)
                in Hex_loop hash result (i + 1)
           else None)
     else Some result)"
  by pat_completeness auto
termination
  by (relation "measure (\<lambda>(hash, result, i). length result - i)") auto

declare Hex_loop.simps [simp del]

text \<open>
  The hash primitive (crypto/sha3, Keccak-256) is an external collaborator: \<open>Address.Hex\<close>
  takes it as the parameter \<open>keccak256\<close>, the function from the bytes written to the sum.
\<close>

definition Address_Hex :: "(byte list \<Rightarrow> byte list) \<Rightarrow> Address \<Rightarrow> string option" where
  "Address_Hex keccak256 a =
    (let unchecksummed = EncodeToString a;
         hash = keccak256 (bytes_of_string unchecksummed);
         result = bytes_of_string unchecksummed
     in case Hex_loop hash result 0 of
          None \<Rightarrow> None
        | Some result \<Rightarrow> Some (''0x'' @ string_of_bytes result))"

text \<open>
  Modelled from the spec: \<open>FromHex\<close> (common/bytes.go) is not among the sources. The spec's
  \<open>fromHex\<close> accepts an optional \<open>0x\<close>/\<open>0X\<close> prefix and reduces to \<open>fromBytes\<close> of the
  decoded bytes; the digits are decoded as Go's \<open>hex.DecodeString\<close> does (both cases
  accepted, the bytes before the first invalid character kept), an odd number of digits
  being padded with a leading \<open>0\<close>.
\<close>

definition fromHexChar :: "char \<Rightarrow> byte option" where
  "fromHexChar c =
    (let n = (of_char c :: nat) in
     if 48 \<le> n \<and> n \<le> 57 then Some (of_nat (n - 48))
     else if 97 \<le> n \<and> n \<le> 102 then Some (of_nat (n - 97 + 10))
     else if 65 \<le> n \<and> n \<le> 70 then Some (of_nat (n - 65 + 10))
     else None)"

fun DecodeString :: "string \<Rightarrow> byte list" where
  "DecodeString (c # d # s) =
     (case fromHexChar c of
        None \<Rightarrow> []
      | Some a \<Rightarrow> (case fromHexChar d of
                    None \<Rightarrow> []
                  | Some b \<Rightarrow> (push_bit 4 a OR b) # DecodeString s))"
| "DecodeString s = []"

definition FromHex :: "string \<Rightarrow> byte list" where
  "FromHex s =
    (let s = (if length s > 1 \<and> (take 2 s = ''0x'' \<or> take 2 s = ''0X'') then drop 2 s else s);
         s = (if length s mod 2 = 1 then ''0'' @ s else s)
     in DecodeString s)"

definition HexToAddress :: "string \<Rightarrow> Address" where
  "HexToAddress s = BytesToAddress (FromHex s)"

text \<open>
  \<open>strings.ToLower\<close> and the upper-case letter of an ASCII character; bytes outside ASCII
  do not occur in hexadecimal text and are left as they are.
\<close>

definition lower_char :: "char \<Rightarrow> char" where
  "lower_char c = (let n = (of_char c :: nat) in if 65 \<le> n \<and> n \<le> 90 then char_of (n + 32) else c)"

definition upper_char :: "char \<Rightarrow> char" where
  "upper_char c = (let n = (of_char c :: nat) in if 97 \<le> n \<and> n \<le> 122 then char_of (n - 32) else c)"

definition ToLower :: "string \<Rightarrow> string" where
  "ToLower s = map lower_char s"

text \<open>
  The words of the spec for the checksum: the nibble of the hash that belongs to character
  \<open>i\<close> (high nibble of byte \<open>i/2\<close> for even \<open>i\<close>, low nibble for odd \<open>i\<close>), and the
  alphabetic hexadecimal digits.
\<close>

definition hash_nibble :: "byte list \<Rightarrow> nat \<Rightarrow> nat" where
  "hash_nibble hash i =
    (if even i then unat (hash ! (i div 2)) div 16 else unat (hash ! (i div 2)) mod 16)"

definition alphabetic_hex :: "char \<Rightarrow> bool" where
  "alphabetic_hex c = (c \<in> set ''abcdef'')"

definition decimal_digit :: "char \<Rightarrow> bool" where
  "decimal_digit c = (c \<in> set ''0123456789'')"

text \<open>Sample inputs: an address that is not zero, a 40-byte and a 10-byte sequence.\<close>

definition addr1 :: Address where
  "addr1 = replicate 19 0 @ [1]"

definition bytes40 :: "byte list" where
  "bytes40 = [1, 2, 3, 4, 5, 6, 7, 8, 9, 10, 11, 12, 13, 14, 15, 16, 17, 18, 19, 20,
              21, 22, 23, 24, 25, 26, 27, 28, 29, 30, 31, 32, 33, 34, 35, 36, 37, 38, 39, 40]"

definition bytes10 :: "byte list" where
  "bytes10 = [1, 2, 3, 4, 5, 6, 7, 8, 9, 10]"

section \<open>Assets and tickets\<close>

text \<open>
  The copy routines are about which \<open>big.Int\<close> a pointer refers to, so here the integers
  live in an explicit store: a \<open>*big.Int\<close> field is \<open>ptr option\<close> (\<open>None\<close> is nil), \<open>ints\<close>
  gives the value of the \<open>big.Int\<close> at each address, and the addresses from \<open>fresh\<close> on
  are unused. A \<open>big.Int\<close> is one cell of the store; its limb slice is not modelled.
  \<^item> \<open>new_Int v\<close> is the allocation of a \<open>big.Int\<close> variable with value \<open>v\<close> whose address
    is taken (\<open>x := *p; &x\<close>, or \<open>new(big.Int)\<close> with \<open>v = 0\<close>).
  \<^item> \<open>Int_Set z x\<close> is an update in place through the pointer \<open>z\<close>, as \<open>z.Set\<close>, \<open>z.Add\<close>
    and the other methods of \<open>big.Int\<close> do with their receiver.
\<close>

type_synonym ptr = nat

record store =
  ints :: "ptr \<Rightarrow> int"
  fresh :: ptr

definition new_Int :: "int \<Rightarrow> store \<Rightarrow> ptr \<times> store" where
  "new_Int v \<sigma> = (fresh \<sigma>, \<sigma>\<lparr>ints := (ints \<sigma>)(fresh \<sigma> := v), fresh := Suc (fresh \<sigma>)\<rparr>)"

definition Int_Set :: "ptr \<Rightarrow> int \<Rightarrow> store \<Rightarrow> store" where
  "Int_Set z x \<sigma> = \<sigma>\<lparr>ints := (ints \<sigma>)(z := x)\<rparr>"

record Asset =
  ID :: Hash
  Owner :: Address
  Name :: string
  Symbol :: string
  Decimals :: uint8
  Total :: "ptr option"
  CanChange :: bool
  Description :: string

text \<open>
  \<open>total := *u.Total\<close> panics for a nil pointer (the result \<open>None\<close>). The composite literal
  names no \<open>Description\<close>, so the field has the zero value, the empty string.
\<close>

definition Asset_DeepCopy :: "Asset \<Rightarrow> store \<Rightarrow> (Asset \<times> store) option" where
  "Asset_DeepCopy u \<sigma> =
    (case Asset.Total u of
       None \<Rightarrow> None
     | Some p \<Rightarrow>
         let (total, \<sigma>) = new_Int (ints \<sigma> p) \<sigma> in
         Some (\<lparr>Asset.ID = Asset.ID u,
                Owner = Asset.Owner u,
                Name = Asset.Name u,
                Symbol = Asset.Symbol u,
                Decimals = Asset.Decimals u,
                Total = Some total,
                CanChange = Asset.CanChange u,
                Description = ''''\<rparr>, \<sigma>))"

record Ticket =
  ID :: Hash
  Owner :: Address
  Height :: "ptr option"
  StartTime :: uint64
  ExpireTime :: uint64
  Value :: "ptr option"
  weight :: "ptr option"

definition Ticket_Weight :: "Ticket \<Rightarrow> ptr option" where
  "Ticket_Weight t = weight t"

text \<open>
  \<open>Ticket.DeepCopy\<close> copies \<open>Height\<close> and \<open>Value\<close> into new variables. For the weight,
  \<open>&(*w)\<close> is the pointer \<open>w\<close> itself; the \<open>new(big.Int)\<close> is kept only for a nil weight.
\<close>

definition Ticket_DeepCopy :: "Ticket \<Rightarrow> store \<Rightarrow> (Ticket \<times> store) option" where
  "Ticket_DeepCopy t \<sigma> =
    (case Ticket.Height t of
       None \<Rightarrow> None
     | Some hp \<Rightarrow>
        (case Ticket.Value t of
           None \<Rightarrow> None
         | Some vp \<Rightarrow>
             let (height, \<sigma>) = new_Int (ints \<sigma> hp) \<sigma>;
                 (value, \<sigma>) = new_Int (ints \<sigma> vp) \<sigma>;
                 w = Ticket_Weight t;
                 (wt, \<sigma>) = new_Int 0 \<sigma>;
                 wt = (if w \<noteq> None then w else Some wt)
             in Some (\<lparr>Ticket.ID = Ticket.ID t,
                       Owner = Ticket.Owner t,
                       Height = Some height,
                       StartTime = Ticket.StartTime t,
                       ExpireTime = Ticket.ExpireTime t,
                       Value = Some value,
                       weight = wt\<rparr>, \<sigma>)))"

text \<open>
  A \<open>TicketSlice\<close> is \<open>None\<close> for the nil slice and \<open>Some ts\<close> for a slice with the elements
  \<open>ts\<close>. \<open>TicketSlice.DeepCopy\<close> appends each struct \<open>t\<close> by value to a slice made anew: the
  elements get their own storage, their pointer fields are copied as pointers, and no
  \<open>big.Int\<close> is allocated or written, so the store is not touched.
\<close>

type_synonym TicketSlice = "Ticket list option"

definition TicketSlice_DeepCopy :: "TicketSlice \<Rightarrow> TicketSlice" where
  "TicketSlice_DeepCopy s =
    (case s of
       None \<Rightarrow> None
     | Some ts \<Rightarrow>
         if length ts = 0 then None
         else let r = [] in Some (fold (\<lambda>t r. r @ [t]) ts r))"

text \<open>
  A ticket whose three integers are the cells 0, 1 and 2 of a store that holds the height
  100, the value 5000 and the weight 7.
\<close>

definition ticket1 :: Ticket where
  "ticket1 = \<lparr>Ticket.ID = replicate 32 1, Owner = addr1, Height = Some 0, StartTime = 10,
     ExpireTime = 20, Value = Some 1, weight = Some 2\<rparr>"

definition store1 :: store where
  "store1 = \<lparr>ints = (\<lambda>p. 0)(0 := 100, 1 := 5000, 2 := 7), fresh = 3\<rparr>"

definition asset1 :: Asset where
  "asset1 = \<lparr>Asset.ID = replicate 32 1, Owner = addr1, Name = ''Fusion'', Symbol = ''FSN'',
     Decimals = 18, Total = Some 1, CanChange = False, Description = ''https://fusion.org''\<rparr>"

section \<open>Auxiliary definitions for the proofs\<close>

text \<open>One pass of the loop body of \<open>Address.Hex\<close> on the byte \<open>c\<close> at index \<open>i\<close>.\<close>

definition Hex_step :: "byte list \<Rightarrow> byte \<Rightarrow> nat \<Rightarrow> byte" where
  "Hex_step hash c i =
    (if c > of_char CHR ''9''
        \<and> (if i mod 2 = 0 then drop_bit 4 (hash ! (i div 2)) else hash ! (i div 2) AND 0xf) > 7
     then c - 32 else c)"

text \<open>
  A stand-in for the hash in examples (32 bytes computed from the first bytes written; it
  is not Keccak-256), and a sample address.
\<close>

definition sample_sum :: "byte list \<Rightarrow> byte list" where
  "sample_sum x = map (\<lambda>b. b * 29 + 7) (take 32 (x @ replicate 32 0))"

definition addr_ab :: Address where
  "addr_ab = [0xab, 0xcd, 0xef, 0x01, 0x23, 0x45, 0x67, 0x89, 0xab, 0xcd,
              0xef, 0x01, 0x23, 0x45, 0x67, 0x89, 0xab, 0xcd, 0xef, 0x01]"

section \<open>Properties of the validation gate\<close>

lemma nil_or_simps: "nil_or None P = True" "nil_or (Some v) P = P v"
  by (simp_all add: nil_or_def)

lemma Cmp_lt0: "Cmp x Big0 < 0 \<longleftrightarrow> x < 0"
  by (simp add: Cmp_def Big0_def)

lemma Cmp_le0: "Cmp x Big0 \<le> 0 \<longleftrightarrow> x \<le> 0"
  by (simp add: Cmp_def Big0_def)

lemma Cmp_gt: "Cmp x y > 0 \<longleftrightarrow> x > y"
  by (simp add: Cmp_def)

subsection \<open>Asset issuance\<close>

text \<open>
  C1 (as the code has it). \<open>GenAssetParam.Check\<close> fails if and only if \<open>Name\<close> or \<open>Symbol\<close>
  is empty, \<open>Total\<close> is nil or negative, \<open>Decimals > 18\<close>, the description is longer than
  1024 bytes, the name longer than 128 or the symbol longer than 64. The comparison of
  \<open>Total\<close> is \<open>Cmp(Big0) < 0\<close>, so a total of zero is accepted.
\<close>

theorem GenAssetParam_Check_fails_iff:
  "GenAssetParam_Check p blockNumber \<noteq> None \<longleftrightarrow>
     (GenAssetParam.Name p = [] \<or> GenAssetParam.Symbol p = []
      \<or> GenAssetParam.Total p = None \<or> (\<exists>t. GenAssetParam.Total p = Some t \<and> t < 0)
      \<or> GenAssetParam.Decimals p > 18
      \<or> length (GenAssetParam.Description p) > 1024
      \<or> length (GenAssetParam.Name p) > 128
      \<or> length (GenAssetParam.Symbol p) > 64)"
  by (cases "GenAssetParam.Total p")
     (auto simp: GenAssetParam_Check_def nil_or_simps Cmp_lt0)

text \<open>
  The parameter \<open>{Name:"X", Symbol:"X", Decimals:18, Total:1}\<close> passes; a negative total,
  19 decimals and a description of 1025 bytes are each rejected.
\<close>

theorem GenAssetParam_Check_fails_iff_witness:
  "GenAssetParam_Check
     \<lparr>GenAssetParam.Name = ''X'', Symbol = ''X'', Decimals = 18, Total = Some 1,
      CanChange = False, Description = ''''\<rparr> None = None
   \<and> GenAssetParam_Check
     \<lparr>GenAssetParam.Name = ''X'', Symbol = ''X'', Decimals = 18, Total = Some (- 1),
      CanChange = False, Description = ''''\<rparr> None \<noteq> None
   \<and> GenAssetParam_Check
     \<lparr>GenAssetParam.Name = ''X'', Symbol = ''X'', Decimals = 19, Total = Some 1,
      CanChange = False, Description = ''''\<rparr> None \<noteq> None
   \<and> GenAssetParam_Check
     \<lparr>GenAssetParam.Name = ''X'', Symbol = ''X'', Decimals = 18, Total = Some 1,
      CanChange = False, Description = replicate 1025 CHR ''d''\<rparr> None \<noteq> None"
  using GenAssetParam_Check_fails_iff
      [of "\<lparr>GenAssetParam.Name = ''X'', Symbol = ''X'', Decimals = 18, Total = Some 1,
            CanChange = False, Description = ''''\<rparr>" None]
    GenAssetParam_Check_fails_iff
      [of "\<lparr>GenAssetParam.Name = ''X'', Symbol = ''X'', Decimals = 18, Total = Some (- 1),
            CanChange = False, Description = ''''\<rparr>" None]
    GenAssetParam_Check_fails_iff
      [of "\<lparr>GenAssetParam.Name = ''X'', Symbol = ''X'', Decimals = 19, Total = Some 1,
            CanChange = False, Description = ''''\<rparr>" None]
    GenAssetParam_Check_fails_iff
      [of "\<lparr>GenAssetParam.Name = ''X'', Symbol = ''X'', Decimals = 18, Total = Some 1,
            CanChange = False, Description = replicate 1025 CHR ''d''\<rparr>" None]
  by simp

text \<open>
  The claim's own example with \<open>Total:0\<close>: the claim says it fails, the check returns nil.
\<close>

theorem GenAssetParam_Check_Total_zero_succeeds:
  "GenAssetParam_Check
     \<lparr>GenAssetParam.Name = ''X'', Symbol = ''X'', Decimals = 18, Total = Some 0,
      CanChange = False, Description = ''''\<rparr> None = None"
  by (simp add: GenAssetParam_Check_def nil_or_simps Cmp_def Big0_def)

lemma nil_or_le0: "nil_or x (\<lambda>v. Cmp v Big0 \<le> 0) \<longleftrightarrow> \<not> set_and_positive x"
  by (cases x) (auto simp: nil_or_simps Cmp_le0 set_and_positive_def)

lemma set_and_positive_iff: "set_and_positive x \<longleftrightarrow> (\<exists>v. x = Some v \<and> 0 < v)"
  by (cases x) (simp_all add: set_and_positive_def)

subsection \<open>Ticket purchase\<close>

text \<open>The three sums of \<open>BuyTicketParam.Check\<close>, read as integers.\<close>

lemma uint_week_adjust:
  "uint (timestamp + (604800 + adjust) :: 64 word)
     = (uint timestamp + 604800 + sint adjust) mod 2 ^ 64"
proof -
  have "uint (timestamp + (604800 + adjust) :: 64 word)
          = (uint timestamp + 604800 + uint adjust) mod 2 ^ 64"
    by (simp add: uint_word_ariths mod_simps add.assoc)
  also have "\<dots> = (uint timestamp + 604800 + sint adjust mod 2 ^ 64) mod 2 ^ 64"
    by (simp add: uint_sint [of adjust] take_bit_eq_mod)
  also have "\<dots> = (uint timestamp + 604800 + sint adjust) mod 2 ^ 64"
    by (rule mod_add_right_eq)
  finally show ?thesis .
qed

lemma uint_month:
  "uint (start :: 64 word) + 2592000 < 2 ^ 64
     \<Longrightarrow> uint (start + 2592000) = uint start + 2592000"
  by (simp add: uint_word_ariths)

lemma uint_3h:
  "uint (ts :: 64 word) + 10800 < 2 ^ 64 \<Longrightarrow> uint (ts + 10800) = uint ts + 10800"
  by (simp add: uint_word_ariths)

lemma BuyTicketParam_Check_numerals:
  "BuyTicketParam_Check p blockNumber timestamp adjust =
    (if End p \<le> Start p \<or> End p < Start p + 2592000
     then Some (Errorf ''BuyTicket end must be lower than start + 1 month'')
     else if timestamp \<noteq> 0
     then (if Start p > timestamp + 10800
           then Some (Errorf ''BuyTicket start must be lower than latest block time + 3 hour'')
           else if End p < timestamp + (604800 + adjust)
           then Some (Errorf ''BuyTicket end must be greater than latest block time + 1 week'')
           else None)
     else None)"
  by (simp add: BuyTicketParam_Check_def Let_def)

text \<open>
  C2 (as the code has it). Where the sums stay inside the 64-bit range, that is
  \<open>Start + 30 days < 2^64\<close> and, for \<open>blockTimestamp \<noteq> 0\<close>, \<open>blockTimestamp + 3 hours < 2^64\<close>
  and \<open>0 \<le> blockTimestamp + 7 days + adjustSeconds < 2^64\<close>, \<open>BuyTicketParam.Check\<close> fails if
  and only if \<open>End \<le> Start\<close>, or \<open>End < Start + 30 days\<close>, or \<open>blockTimestamp \<noteq> 0\<close> and
  (\<open>Start > blockTimestamp + 3 hours\<close> or \<open>End < blockTimestamp + 7 days + adjustSeconds\<close>).
  \<open>uint\<close> reads the unsigned fields, \<open>sint\<close> the signed \<open>adjust\<close>.
\<close>

theorem BuyTicketParam_Check_fails_iff:
  assumes month: "uint (Start p) + 2592000 < 2 ^ 64"
    and hours: "timestamp \<noteq> 0 \<longrightarrow> uint timestamp + 10800 < 2 ^ 64"
    and week: "timestamp \<noteq> 0 \<longrightarrow>
                0 \<le> uint timestamp + 604800 + sint adjust
                \<and> uint timestamp + 604800 + sint adjust < 2 ^ 64"
  shows "BuyTicketParam_Check p blockNumber timestamp adjust \<noteq> None \<longleftrightarrow>
     (uint (End p) \<le> uint (Start p) \<or> uint (End p) < uint (Start p) + 30 * 86400
      \<or> (timestamp \<noteq> 0 \<and>
          (uint (Start p) > uint timestamp + 3 * 3600
           \<or> uint (End p) < uint timestamp + 7 * 86400 + sint adjust)))"
proof -
  have m: "uint (Start p + 2592000) = uint (Start p) + 2592000"
    using month by (rule uint_month)
  show ?thesis
  proof (cases "timestamp = 0")
    case True
    then show ?thesis
      by (simp add: BuyTicketParam_Check_numerals word_le_def word_less_def m)
  next
    case False
    have w: "uint (timestamp + (604800 + adjust)) = uint timestamp + 604800 + sint adjust"
      using week False by (simp only: uint_week_adjust) simp
    have h: "uint (timestamp + 10800) = uint timestamp + 10800"
      using hours False by (simp add: uint_3h)
    show ?thesis
      using False
      by (simp add: BuyTicketParam_Check_numerals word_le_def word_less_def w h m)
  qed
qed

text \<open>
  The spec's examples: a lifetime one second short fails, the exact boundary passes when
  \<open>blockTimestamp = 0\<close>; with \<open>blockTimestamp = 5000\<close> a start one second beyond three hours
  fails, a start at the block time with a negative slack passes, and an end one second
  before \<open>blockTimestamp + 7 days + adjust\<close> fails although the lifetime rule passes.
\<close>

theorem BuyTicketParam_Check_fails_iff_witness:
  "BuyTicketParam_Check \<lparr>Start = 1000, End = 1000 + 30 * 86400 - 1\<rparr> None 0 0 \<noteq> None
   \<and> BuyTicketParam_Check \<lparr>Start = 1000, End = 1000 + 30 * 86400\<rparr> None 0 0 = None
   \<and> BuyTicketParam_Check \<lparr>Start = 5000 + 3 * 3600 + 1, End = 5000 + 3 * 3600 + 1 + 30 * 86400\<rparr>
        None 5000 0 \<noteq> None
   \<and> BuyTicketParam_Check \<lparr>Start = 5000, End = 5000 + 30 * 86400\<rparr> None 5000 (- 100) = None
   \<and> BuyTicketParam_Check \<lparr>Start = 0, End = 5000 + 7 * 86400 + 2000000 - 1\<rparr>
        None 5000 2000000 \<noteq> None"
  using BuyTicketParam_Check_fails_iff
      [of "\<lparr>Start = 1000, End = 1000 + 30 * 86400 - 1\<rparr>" 0 0 None]
    BuyTicketParam_Check_fails_iff
      [of "\<lparr>Start = 1000, End = 1000 + 30 * 86400\<rparr>" 0 0 None]
    BuyTicketParam_Check_fails_iff
      [of "\<lparr>Start = 5000 + 3 * 3600 + 1, End = 5000 + 3 * 3600 + 1 + 30 * 86400\<rparr>" 5000 0 None]
    BuyTicketParam_Check_fails_iff
      [of "\<lparr>Start = 5000, End = 5000 + 30 * 86400\<rparr>" 5000 "- 100" None]
    BuyTicketParam_Check_fails_iff
      [of "\<lparr>Start = 0, End = 5000 + 7 * 86400 + 2000000 - 1\<rparr>" 5000 2000000 None]
  by simp

text \<open>
  The claim as stated, for every \<open>Start\<close> and \<open>End\<close>, fails where \<open>start+30*24*3600\<close> wraps:
  with \<open>Start = 2^64 - 2592000\<close>, \<open>End = 2^64 - 1\<close> and \<open>blockTimestamp = 0\<close> the lifetime is
  one second short of 30 days, and the check returns nil.
\<close>

theorem BuyTicketParam_Check_wraps:
  "BuyTicketParam_Check \<lparr>Start = 18446744073706959616, End = 18446744073709551615\<rparr>
     None 0 0 = None
   \<and> uint (18446744073709551615 :: 64 word) < uint (18446744073706959616 :: 64 word) + 30 * 86400"
  by (simp add: BuyTicketParam_Check_def Let_def)

subsection \<open>Swaps\<close>

text \<open>
  C5. \<open>TakeSwapParam.Check\<close> succeeds if and only if \<open>Size\<close> and \<open>swap.SwapSize\<close> are set with
  \<open>0 < Size \<le> swap.SwapSize\<close>, \<open>swap.MinFromAmount > 0\<close>, \<open>swap.MinToAmount > 0\<close>, both
  products with \<open>Size\<close> are positive, and both end times are after \<open>blockTimestamp\<close>.
\<close>

theorem TakeSwapParam_Check_succeeds_iff:
  "TakeSwapParam_Check p blockNumber swap timestamp = None \<longleftrightarrow>
     (\<exists>size swapSize minFrom minTo.
        Size p = Some size \<and> Swap.SwapSize swap = Some swapSize
        \<and> 0 < size \<and> size \<le> swapSize
        \<and> Swap.MinFromAmount swap = Some minFrom \<and> 0 < minFrom
        \<and> Swap.MinToAmount swap = Some minTo \<and> 0 < minTo
        \<and> 0 < minFrom * size \<and> 0 < minTo * size
        \<and> Swap.FromEndTime swap > timestamp \<and> Swap.ToEndTime swap > timestamp)"
proof (cases "Size p")
  case None
  then show ?thesis by (simp add: TakeSwapParam_Check_def nil_or_simps)
next
  case sz: (Some size)
  show ?thesis
  proof (cases "Swap.SwapSize swap")
    case None
    then show ?thesis using sz by (simp add: TakeSwapParam_Check_def nil_or_simps)
  next
    case ss: (Some swapSize)
    show ?thesis
    proof (cases "Swap.MinFromAmount swap")
      case None
      then show ?thesis using sz ss by (simp add: TakeSwapParam_Check_def nil_or_simps)
    next
      case mf: (Some minFrom)
      show ?thesis
      proof (cases "Swap.MinToAmount swap")
        case None
        then show ?thesis using sz ss mf by (simp add: TakeSwapParam_Check_def nil_or_simps)
      next
        case mt: (Some minTo)
        show ?thesis
          using sz ss mf mt
          by (auto simp: TakeSwapParam_Check_def nil_or_simps Cmp_le0 Cmp_gt Mul_def Let_def
              not_le not_less mult_le_0_iff zero_less_mult_iff)
      qed
    qed
  qed
qed

text \<open>
  For the stored swap with \<open>SwapSize\<close> 10 at block time 1000: the full take of size 10
  passes, sizes 11 and 0 fail.
\<close>

theorem TakeSwapParam_Check_succeeds_iff_witness:
  "TakeSwapParam_Check \<lparr>SwapID = [], Size = Some 10\<rparr> None swap10 1000 = None
   \<and> TakeSwapParam_Check \<lparr>SwapID = [], Size = Some 11\<rparr> None swap10 1000 \<noteq> None
   \<and> TakeSwapParam_Check \<lparr>SwapID = [], Size = Some 0\<rparr> None swap10 1000 \<noteq> None"
  using TakeSwapParam_Check_succeeds_iff [of "\<lparr>SwapID = [], Size = Some 10\<rparr>" None swap10 1000]
    TakeSwapParam_Check_succeeds_iff [of "\<lparr>SwapID = [], Size = Some 11\<rparr>" None swap10 1000]
    TakeSwapParam_Check_succeeds_iff [of "\<lparr>SwapID = [], Size = Some 0\<rparr>" None swap10 1000]
  by (simp add: swap10_def)

text \<open>
  The checks of \<open>MakeSwapParam.Check\<close> in the order of the code; the product of two positive
  unbounded integers is positive, so the third return is never taken.
\<close>

lemma MakeSwapParam_Check_None_iff:
  "MakeSwapParam_Check p blockNumber timestamp = None \<longleftrightarrow>
     (set_and_positive (MakeSwapParam.MinFromAmount p)
      \<and> set_and_positive (MakeSwapParam.MinToAmount p)
      \<and> set_and_positive (MakeSwapParam.SwapSize p)
      \<and> length (MakeSwapParam.Description p) \<le> 1024
      \<and> MakeSwapParam.FromStartTime p \<le> MakeSwapParam.FromEndTime p
      \<and> MakeSwapParam.ToStartTime p \<le> MakeSwapParam.ToEndTime p
      \<and> MakeSwapParam.FromEndTime p > timestamp
      \<and> MakeSwapParam.ToEndTime p > timestamp)"
proof (cases "set_and_positive (MakeSwapParam.MinFromAmount p)
    \<and> set_and_positive (MakeSwapParam.MinToAmount p)
    \<and> set_and_positive (MakeSwapParam.SwapSize p)")
  case False
  then show ?thesis
    by (auto simp: MakeSwapParam_Check_def nil_or_le0)
next
  case True
  then obtain a b s where v: "MakeSwapParam.MinFromAmount p = Some a" "0 < a"
    "MakeSwapParam.MinToAmount p = Some b" "0 < b"
    "MakeSwapParam.SwapSize p = Some s" "0 < s"
    by (auto simp: set_and_positive_iff)
  then have pos: "0 < a * s" by simp
  show ?thesis
    using v pos
    by (auto simp: MakeSwapParam_Check_def nil_or_simps Cmp_le0 Mul_def Let_def
        set_and_positive_def not_le not_less mult_le_0_iff)
qed

text \<open>
  C6. \<open>MakeSwapParam.Check\<close> fails if and only if one of \<open>MinFromAmount\<close>, \<open>MinToAmount\<close>,
  \<open>SwapSize\<close> is unset or \<open>\<le> 0\<close>, or the description is longer than 1024, or
  \<open>MinFromAmount * SwapSize \<le> 0\<close>, or a start time is after its end time, or an end time is
  \<open>\<le> blockTimestamp\<close>. The spec's offer with amounts 100, 100 and size 10 therefore passes
  exactly when both end times are after \<open>blockTimestamp\<close>.
\<close>

theorem MakeSwapParam_Check_fails_iff:
  "(MakeSwapParam_Check p blockNumber timestamp \<noteq> None \<longleftrightarrow>
     (\<not> set_and_positive (MakeSwapParam.MinFromAmount p)
      \<or> \<not> set_and_positive (MakeSwapParam.MinToAmount p)
      \<or> \<not> set_and_positive (MakeSwapParam.SwapSize p)
      \<or> length (MakeSwapParam.Description p) > 1024
      \<or> (\<exists>a s. MakeSwapParam.MinFromAmount p = Some a \<and> MakeSwapParam.SwapSize p = Some s
                 \<and> a * s \<le> 0)
      \<or> MakeSwapParam.FromStartTime p > MakeSwapParam.FromEndTime p
      \<or> MakeSwapParam.ToStartTime p > MakeSwapParam.ToEndTime p
      \<or> MakeSwapParam.FromEndTime p \<le> timestamp
      \<or> MakeSwapParam.ToEndTime p \<le> timestamp))
   \<and> (MakeSwapParam_Check (makeSwap100 E1 E2) blockNumber timestamp = None
        \<longleftrightarrow> E1 > timestamp \<and> E2 > timestamp)"
proof
  show "MakeSwapParam_Check p blockNumber timestamp \<noteq> None \<longleftrightarrow>
     (\<not> set_and_positive (MakeSwapParam.MinFromAmount p)
      \<or> \<not> set_and_positive (MakeSwapParam.MinToAmount p)
      \<or> \<not> set_and_positive (MakeSwapParam.SwapSize p)
      \<or> length (MakeSwapParam.Description p) > 1024
      \<or> (\<exists>a s. MakeSwapParam.MinFromAmount p = Some a \<and> MakeSwapParam.SwapSize p = Some s
                 \<and> a * s \<le> 0)
      \<or> MakeSwapParam.FromStartTime p > MakeSwapParam.FromEndTime p
      \<or> MakeSwapParam.ToStartTime p > MakeSwapParam.ToEndTime p
      \<or> MakeSwapParam.FromEndTime p \<le> timestamp
      \<or> MakeSwapParam.ToEndTime p \<le> timestamp)"
    by (auto simp: MakeSwapParam_Check_None_iff set_and_positive_iff not_le not_less
        mult_le_0_iff)
  show "MakeSwapParam_Check (makeSwap100 E1 E2) blockNumber timestamp = None
        \<longleftrightarrow> E1 > timestamp \<and> E2 > timestamp"
    by (simp add: MakeSwapParam_Check_None_iff makeSwap100_def set_and_positive_def)
qed

theorem MakeSwapParam_Check_fails_iff_witness:
  "MakeSwapParam_Check (makeSwap100 2000 3000) None 1000 = None
   \<and> MakeSwapParam_Check (makeSwap100 1000 3000) None 1000 \<noteq> None
   \<and> MakeSwapParam_Check (makeSwap100 2000 999) None 1000 \<noteq> None
   \<and> MakeSwapParam_Check ((makeSwap100 2000 3000)\<lparr>MakeSwapParam.SwapSize := Some 0\<rparr>) None 1000 \<noteq> None"
  using MakeSwapParam_Check_fails_iff [of "makeSwap100 2000 3000" None 1000 2000 3000]
    MakeSwapParam_Check_fails_iff [of "makeSwap100 1000 3000" None 1000 1000 3000]
    MakeSwapParam_Check_fails_iff [of "makeSwap100 2000 999" None 1000 2000 999]
    MakeSwapParam_Check_fails_iff
      [of "(makeSwap100 2000 3000)\<lparr>MakeSwapParam.SwapSize := Some 0\<rparr>" None 1000 2000 3000]
  by (simp add: makeSwap100_def set_and_positive_def)

subsection \<open>Transfer, time lock and value change\<close>

text \<open>
  C8. Each of the four checks passes only for a \<open>Value\<close> that is set and strictly positive;
  beyond that \<open>SendAssetParam.Check\<close> passes exactly when the receiver is not the zero
  address, \<open>TimeLockParam.Check\<close> exactly when \<open>StartTime \<le> EndTime\<close> and
  \<open>EndTime \<ge> blockTimestamp\<close>, \<open>AssetValueChangeExParam.Check\<close> exactly when \<open>TransacData\<close>
  has at most 256 bytes, and \<open>AssetValueChangeParam.Check\<close> has no further condition.
\<close>

theorem Value_checks_succeed_iff:
  "(SendAssetParam_Check ps blockNumber = None \<longleftrightarrow>
      set_and_positive (SendAssetParam.Value ps) \<and> SendAssetParam.To ps \<noteq> Address_zero)
   \<and> (TimeLockParam_Check pt blockNumber timestamp = None \<longleftrightarrow>
      set_and_positive (TimeLockParam.Value pt)
      \<and> TimeLockParam.StartTime pt \<le> TimeLockParam.EndTime pt
      \<and> TimeLockParam.EndTime pt \<ge> timestamp)
   \<and> (AssetValueChangeParam_Check pc blockNumber = None \<longleftrightarrow>
      set_and_positive (AssetValueChangeParam.Value pc))
   \<and> (AssetValueChangeExParam_Check px blockNumber = None \<longleftrightarrow>
      set_and_positive (AssetValueChangeExParam.Value px) \<and> length (TransacData px) \<le> 256)"
  by (auto simp: SendAssetParam_Check_def TimeLockParam_Check_def
      AssetValueChangeParam_Check_def AssetValueChangeExParam_Check_def nil_or_le0
      not_le not_less)

lemma addr1_not_zero: "addr1 \<noteq> Address_zero"
proof
  assume "addr1 = Address_zero"
  then have "set addr1 = set Address_zero" by simp
  then show False by (simp add: addr1_def Address_zero_def AddressLength_def)
qed

text \<open>
  A positive value passes each check; the zero receiver, a block time after \<open>EndTime\<close>, a
  nil value and an annotation of 257 bytes are rejected.
\<close>

theorem Value_checks_succeed_iff_witness:
  "SendAssetParam_Check
     \<lparr>SendAssetParam.AssetID = replicate 32 0, To = addr1, Value = Some 1\<rparr> None = None
   \<and> SendAssetParam_Check
     \<lparr>SendAssetParam.AssetID = replicate 32 0, To = Address_zero, Value = Some 1\<rparr> None \<noteq> None
   \<and> TimeLockParam_Check
     \<lparr>Type = (), AssetID = replicate 32 0, To = addr1, StartTime = 10, EndTime = 20,
      Value = Some 1\<rparr> None 20 = None
   \<and> TimeLockParam_Check
     \<lparr>Type = (), AssetID = replicate 32 0, To = addr1, StartTime = 10, EndTime = 20,
      Value = Some 1\<rparr> None 21 \<noteq> None
   \<and> AssetValueChangeParam_Check
     \<lparr>AssetValueChangeParam.AssetID = replicate 32 0, To = addr1, Value = Some 1,
      IsInc = True\<rparr> None = None
   \<and> AssetValueChangeParam_Check
     \<lparr>AssetValueChangeParam.AssetID = replicate 32 0, To = addr1, Value = None,
      IsInc = True\<rparr> None \<noteq> None
   \<and> AssetValueChangeExParam_Check
     \<lparr>AssetValueChangeExParam.AssetID = replicate 32 0, To = addr1, Value = Some 1,
      IsInc = True, TransacData = replicate 256 CHR ''t''\<rparr> None = None
   \<and> AssetValueChangeExParam_Check
     \<lparr>AssetValueChangeExParam.AssetID = replicate 32 0, To = addr1, Value = Some 1,
      IsInc = True, TransacData = replicate 257 CHR ''t''\<rparr> None \<noteq> None"
  using Value_checks_succeed_iff
     [of "\<lparr>SendAssetParam.AssetID = replicate 32 0, To = addr1, Value = Some 1\<rparr>" None
         "\<lparr>Type = (), AssetID = replicate 32 0, To = addr1, StartTime = 10, EndTime = 20,
           Value = Some 1\<rparr>" 20
         "\<lparr>AssetValueChangeParam.AssetID = replicate 32 0, To = addr1, Value = Some 1,
           IsInc = True\<rparr>"
         "\<lparr>AssetValueChangeExParam.AssetID = replicate 32 0, To = addr1, Value = Some 1,
           IsInc = True, TransacData = replicate 256 CHR ''t''\<rparr>"]
    Value_checks_succeed_iff
     [of "\<lparr>SendAssetParam.AssetID = replicate 32 0, To = Address_zero, Value = Some 1\<rparr>" None
         "\<lparr>Type = (), AssetID = replicate 32 0, To = addr1, StartTime = 10, EndTime = 20,
           Value = Some 1\<rparr>" 21
         "\<lparr>AssetValueChangeParam.AssetID = replicate 32 0, To = addr1, Value = None,
           IsInc = True\<rparr>"
         "\<lparr>AssetValueChangeExParam.AssetID = replicate 32 0, To = addr1, Value = Some 1,
           IsInc = True, TransacData = replicate 257 CHR ''t''\<rparr>"]
  by (simp add: set_and_positive_def addr1_not_zero)

section \<open>Properties of the identifier codec\<close>

subsection \<open>Construction from bytes\<close>

lemma copy_eq: "length src \<le> length dst \<Longrightarrow> copy dst src = src @ drop (length src) dst"
  by (simp add: copy_def Let_def min_def)

lemma BytesToHash_eq:
  "BytesToHash b = replicate (HashLength - length b) 0 @ drop (length b - HashLength) b"
  by (simp add: BytesToHash_def Hash_SetBytes_def Let_def copy_eq)

lemma BytesToAddress_eq:
  "BytesToAddress b = replicate (AddressLength - length b) 0 @ drop (length b - AddressLength) b"
  by (simp add: BytesToAddress_def Address_SetBytes_def Let_def copy_eq)

lemma replicate_numeral: "replicate (numeral k) x = x # replicate (pred_numeral k) x"
  by (simp add: numeral_eq_Suc)

text \<open>
  C4. \<open>BytesToHash\<close> and \<open>BytesToAddress\<close> right-align their input: the result has exactly
  \<open>N\<close> bytes; a longer input keeps its last \<open>N\<close> bytes, a shorter one is padded on the left
  with zero bytes, an input of \<open>N\<close> bytes is kept; and building the identifier again from
  its own bytes gives the same identifier.
\<close>

theorem fromBytes_right_aligns:
  "length (BytesToHash b) = HashLength \<and> length (BytesToAddress b) = AddressLength
   \<and> (length b > HashLength \<longrightarrow> BytesToHash b = drop (length b - HashLength) b)
   \<and> (length b > AddressLength \<longrightarrow> BytesToAddress b = drop (length b - AddressLength) b)
   \<and> (length b < HashLength \<longrightarrow> BytesToHash b = replicate (HashLength - length b) 0 @ b)
   \<and> (length b < AddressLength \<longrightarrow> BytesToAddress b = replicate (AddressLength - length b) 0 @ b)
   \<and> (length b = HashLength \<longrightarrow> BytesToHash b = b)
   \<and> (length b = AddressLength \<longrightarrow> BytesToAddress b = b)
   \<and> BytesToHash (Hash_Bytes (BytesToHash b)) = BytesToHash b
   \<and> BytesToAddress (Address_Bytes (BytesToAddress b)) = BytesToAddress b"
  by (auto simp: BytesToHash_eq BytesToAddress_eq Hash_Bytes_def Address_Bytes_def)

text \<open>
  A 40-byte input gives the address of its last 20 bytes and the hash of its last 32; a
  10-byte input gains 10 leading zero bytes as an address and 22 as a hash.
\<close>

theorem fromBytes_right_aligns_witness:
  "BytesToAddress bytes40
     = [21, 22, 23, 24, 25, 26, 27, 28, 29, 30, 31, 32, 33, 34, 35, 36, 37, 38, 39, 40]
   \<and> BytesToAddress bytes10
     = [0, 0, 0, 0, 0, 0, 0, 0, 0, 0, 1, 2, 3, 4, 5, 6, 7, 8, 9, 10]
   \<and> BytesToHash bytes40 = drop 8 bytes40
   \<and> BytesToHash bytes10 = replicate 22 0 @ bytes10"
  using fromBytes_right_aligns [of bytes40] fromBytes_right_aligns [of bytes10]
  by (simp add: bytes40_def bytes10_def AddressLength_def HashLength_def replicate_numeral)

subsection \<open>Checksum display\<close>

lemma Hex_loop_unfold:
  "i < length result \<Longrightarrow> i div 2 < length hash \<Longrightarrow>
     Hex_loop hash result i = Hex_loop hash (result[i := Hex_step hash (result ! i) i]) (i + 1)"
  by (subst Hex_loop.simps) (simp add: Hex_step_def Let_def)

lemma Hex_loop_done: "\<not> i < length result \<Longrightarrow> Hex_loop hash result i = Some result"
  by (subst Hex_loop.simps) simp

lemma Hex_loop_closed:
  "length result \<le> 2 * length hash \<Longrightarrow> i \<le> length result \<Longrightarrow>
     Hex_loop hash result i
       = Some (take i result @ map (\<lambda>j. Hex_step hash (result ! j) j) [i..<length result])"
proof (induction "length result - i" arbitrary: result i)
  case 0
  then have "i = length result" by simp
  then show ?case by (simp add: Hex_loop_done)
next
  case (Suc n)
  then have lt: "i < length result" by simp
  with Suc.prems have h: "i div 2 < length hash" by linarith
  let ?r = "result[i := Hex_step hash (result ! i) i]"
  have "Hex_loop hash result i = Hex_loop hash ?r (i + 1)"
    using lt h by (rule Hex_loop_unfold)
  also have "\<dots> = Some (take (i + 1) ?r
      @ map (\<lambda>j. Hex_step hash (?r ! j) j) [i + 1..<length ?r])"
    using Suc.hyps(2) Suc.prems lt by (intro Suc.hyps(1)) simp_all
  also have "take (i + 1) ?r = take i result @ [Hex_step hash (result ! i) i]"
    using lt by (simp add: take_Suc_conv_app_nth)
  also have "map (\<lambda>j. Hex_step hash (?r ! j) j) [i + 1..<length ?r]
      = map (\<lambda>j. Hex_step hash (result ! j) j) [i + 1..<length result]"
    by simp
  finally show ?case
    using lt by (simp add: upt_conv_Cons)
qed

lemma hextable_nth_in: "n < 16 \<Longrightarrow> hextable ! n \<in> set hextable"
  by (rule nth_mem) (simp add: hextable_def)

lemma unat_hi_nibble_eq: "unat (drop_bit 4 (v :: byte)) = unat v div 16"
  by (simp add: drop_bit_eq_div unat_div)

lemma unat_lo_nibble_eq: "unat ((v :: byte) AND 0xf) = unat v mod 16"
proof -
  have "v AND 0xf = take_bit 4 v"
    by (simp add: take_bit_eq_mask mask_eq_exp_minus_1)
  then show ?thesis
    by (simp add: take_bit_eq_mod unat_mod)
qed

lemma unat_byte_less: "unat (v :: byte) < 256"
  using unsigned_less [of v, where 'a = nat] by simp

lemma unat_hi_nibble: "unat (drop_bit 4 (v :: byte)) < 16"
  using unat_byte_less [of v] by (simp add: unat_hi_nibble_eq)

lemma unat_lo_nibble: "unat ((v :: byte) AND 0xf) < 16"
  by (simp add: unat_lo_nibble_eq)

lemma set_EncodeToString: "set (EncodeToString a) \<subseteq> set hextable"
  by (induction a) (simp_all add: hextable_nth_in unat_hi_nibble unat_lo_nibble)

lemma length_EncodeToString: "length (EncodeToString a) = 2 * length a"
  by (induction a) simp_all

lemma hash_nibble_word:
  "(if i mod 2 = 0 then drop_bit 4 (w :: byte) else w AND 0xf) > 7
     \<longleftrightarrow> (if even i then unat w div 16 else unat w mod 16) > 7"
  by (simp add: word_less_nat_alt unat_hi_nibble_eq unat_lo_nibble_eq even_iff_mod_2_eq_zero)

lemma hex_char_enum:
  assumes "c \<in> set hextable"
  shows "c = CHR ''0'' \<or> c = CHR ''1'' \<or> c = CHR ''2'' \<or> c = CHR ''3'' \<or> c = CHR ''4''
    \<or> c = CHR ''5'' \<or> c = CHR ''6'' \<or> c = CHR ''7'' \<or> c = CHR ''8'' \<or> c = CHR ''9''
    \<or> c = CHR ''a'' \<or> c = CHR ''b'' \<or> c = CHR ''c'' \<or> c = CHR ''d'' \<or> c = CHR ''e''
    \<or> c = CHR ''f''"
  using assms by (simp add: hextable_def)

lemma hex_gt9:
  assumes "c \<in> set hextable"
  shows "(of_char c :: byte) > of_char CHR ''9'' \<longleftrightarrow> alphabetic_hex c"
  using hex_char_enum [OF assms]
  by (elim disjE) (simp_all add: alphabetic_hex_def)


lemma hex_upper:
  assumes "c \<in> set hextable" and "alphabetic_hex c"
  shows "char_of (unat ((of_char c :: byte) - 32)) = upper_char c"
  using hex_char_enum [OF assms(1)] assms(2)
  by (elim disjE) (simp_all add: alphabetic_hex_def upper_char_def)

lemma hex_lower:
  assumes "c \<in> set hextable"
  shows "lower_char c = c"
  using hex_char_enum [OF assms]
  by (elim disjE) (simp_all add: lower_char_def)

lemma hex_lower_upper:
  assumes "c \<in> set hextable" and "alphabetic_hex c"
  shows "lower_char (upper_char c) = c"
  using hex_char_enum [OF assms(1)] assms(2)
  by (elim disjE) (simp_all add: alphabetic_hex_def upper_char_def lower_char_def char_of_eq_iff)

lemma hex_digit_iff:
  assumes "c \<in> set hextable"
  shows "decimal_digit c \<longleftrightarrow> \<not> alphabetic_hex c"
  using hex_char_enum [OF assms]
  by (elim disjE) (simp_all add: alphabetic_hex_def decimal_digit_def)

lemma unat_of_char: "unat (of_char c :: byte) = of_char c"
proof -
  have "unat (of_nat (of_char c) :: byte) = of_char c mod 256"
    by (simp only: unat_of_nat) simp
  then show ?thesis
    by (simp add: of_nat_of_char)
qed

lemma nibble_enum:
  "n < 16 \<Longrightarrow> n = 0 \<or> n = 1 \<or> n = 2 \<or> n = 3 \<or> n = 4 \<or> n = 5 \<or> n = 6 \<or> n = 7
     \<or> n = 8 \<or> n = 9 \<or> n = 10 \<or> n = 11 \<or> n = 12 \<or> n = 13 \<or> n = 14 \<or> n = (15::nat)"
  by presburger

lemma fromHexChar_hextable: "n < 16 \<Longrightarrow> fromHexChar (hextable ! n) = Some (of_nat n)"
  by (drule nibble_enum, elim disjE) (simp_all add: hextable_def fromHexChar_def)

lemma nibbles_join: "push_bit 4 (drop_bit 4 v) OR (v AND 0xf) = (v :: byte)"
proof -
  have "v AND 0xf = take_bit 4 v"
    by (simp add: take_bit_eq_mask mask_eq_exp_minus_1)
  then show ?thesis
    by (simp only:) (rule bit_word_eqI, auto simp: bit_simps)
qed

lemma fromHexChar_lower: "fromHexChar (lower_char c) = fromHexChar c"
proof (cases "65 \<le> (of_char c :: nat) \<and> (of_char c :: nat) \<le> 90")
  case False
  then show ?thesis by (auto simp: lower_char_def Let_def)
next
  case True
  then have "(of_char (char_of (of_char c + 32 :: nat)) :: nat) = of_char c + 32"
    by simp
  with True show ?thesis
    by (simp add: lower_char_def fromHexChar_def Let_def)
qed

lemma DecodeString_ToLower: "DecodeString (map lower_char s) = DecodeString s"
  by (induction s rule: DecodeString.induct)
     (simp_all add: fromHexChar_lower split: option.splits)

lemma DecodeString_EncodeToString: "DecodeString (EncodeToString a) = a"
  by (induction a)
     (simp_all add: fromHexChar_hextable unat_hi_nibble unat_lo_nibble nibbles_join)

lemma FromHex_0x: "even (length cs) \<Longrightarrow> FromHex (''0x'' @ cs) = DecodeString cs"
  by (simp add: FromHex_def Let_def)

lemma BytesToAddress_id: "length a = AddressLength \<Longrightarrow> BytesToAddress a = a"
  by (simp add: BytesToAddress_def Address_SetBytes_def Let_def copy_def)

lemma Address_Hex_closed:
  assumes "length a = AddressLength" and "20 \<le> length (keccak256 (bytes_of_string (EncodeToString a)))"
  shows "Address_Hex keccak256 a
    = Some (''0x'' @ string_of_bytes
        (map (\<lambda>j. Hex_step (keccak256 (bytes_of_string (EncodeToString a)))
                     (bytes_of_string (EncodeToString a) ! j) j) [0..<40]))"
  using assms
  by (simp add: Address_Hex_def Let_def Hex_loop_closed bytes_of_string_def
      length_EncodeToString AddressLength_def)

lemma checksum_char:
  assumes "c \<in> set hextable"
  shows "char_of (unat (Hex_step hash (of_char c) i))
    = (if alphabetic_hex c \<and> hash_nibble hash i > 7 then upper_char c else c)"
proof -
  have g: "(of_char c :: byte) > of_char CHR ''9'' \<longleftrightarrow> alphabetic_hex c"
    using assms by (rule hex_gt9)
  have n: "(if i mod 2 = 0 then drop_bit 4 (hash ! (i div 2)) else hash ! (i div 2) AND 0xf) > 7
      \<longleftrightarrow> hash_nibble hash i > 7"
    by (simp only: hash_nibble_word hash_nibble_def)
  show ?thesis
    unfolding Hex_step_def g n
    using assms by (simp add: hex_upper unat_of_char)
qed


lemma nth_string_of_bytes_map:
  "i < n \<Longrightarrow> string_of_bytes (map f [0..<n]) ! i = char_of (unat (f i))"
  by (simp add: string_of_bytes_def)

text \<open>
  C3. For an address \<open>a\<close> of 20 bytes and a hash of 32 bytes, \<open>Address.Hex\<close> returns \<open>0x\<close>
  followed by 40 characters \<open>cs\<close>; character \<open>i\<close> is the upper-case form of character \<open>i\<close>
  of the lower-case hexadecimal text of \<open>a\<close> exactly when that character is one of
  \<open>a\<close>-\<open>f\<close> and the nibble of the hash of that text at position \<open>i\<close> is greater than 7, and
  is that character otherwise; decimal digits are never altered. Decoding the result gives
  \<open>a\<close> back, and its lower-case form is \<open>0x\<close> followed by the plain hexadecimal text.
\<close>

theorem Address_Hex_checksum:
  assumes len: "length a = AddressLength"
    and sum: "\<And>x. length (keccak256 x) = 32"
  shows "\<exists>cs. Address_Hex keccak256 a = Some (''0x'' @ cs) \<and> length cs = 40
     \<and> (\<forall>i<40. cs ! i =
          (if alphabetic_hex (EncodeToString a ! i)
              \<and> hash_nibble (keccak256 (bytes_of_string (EncodeToString a))) i > 7
           then upper_char (EncodeToString a ! i) else EncodeToString a ! i))
     \<and> (\<forall>i<40. decimal_digit (EncodeToString a ! i) \<longrightarrow> cs ! i = EncodeToString a ! i)
     \<and> HexToAddress (''0x'' @ cs) = a
     \<and> ToLower (''0x'' @ cs) = ''0x'' @ EncodeToString a"
proof -
  let ?lo = "EncodeToString a"
  let ?hash = "keccak256 (bytes_of_string ?lo)"
  let ?cs = "string_of_bytes (map (\<lambda>j. Hex_step ?hash (bytes_of_string ?lo ! j) j) [0..<40])"
  have lo_len: "length ?lo = 40"
    using len by (simp add: length_EncodeToString AddressLength_def)
  have lo_hex: "?lo ! i \<in> set hextable" if "i < 40" for i
    using that lo_len set_EncodeToString [of a] nth_mem [of i ?lo] by auto
  have hex: "Address_Hex keccak256 a = Some (''0x'' @ ?cs)"
    using len by (intro Address_Hex_closed) (simp_all add: sum)
  have cs_len: "length ?cs = 40"
    by (simp add: string_of_bytes_def)
  have cs_nth: "?cs ! i =
      (if alphabetic_hex (?lo ! i) \<and> hash_nibble ?hash i > 7
       then upper_char (?lo ! i) else ?lo ! i)" if "i < 40" for i
    using that lo_len lo_hex [OF that]
    by (simp add: nth_string_of_bytes_map bytes_of_string_def checksum_char)
  have digits: "?cs ! i = ?lo ! i" if "i < 40" "decimal_digit (?lo ! i)" for i
    using that cs_nth [OF that(1)] hex_digit_iff [OF lo_hex [OF that(1)]] by simp
  have lower: "map lower_char ?cs = ?lo"
  proof (rule nth_equalityI)
    show "length (map lower_char ?cs) = length ?lo"
      by (simp add: cs_len lo_len)
    fix i assume "i < length (map lower_char ?cs)"
    then have i: "i < 40" by (simp add: cs_len)
    then show "map lower_char ?cs ! i = ?lo ! i"
      using cs_nth [OF i] lo_hex [OF i] cs_len
      by (simp add: hex_lower hex_lower_upper)
  qed
  have "DecodeString ?cs = DecodeString (map lower_char ?cs)"
    by (simp only: DecodeString_ToLower)
  also have "\<dots> = a"
    by (simp only: lower DecodeString_EncodeToString)
  finally have dec: "DecodeString ?cs = a" .
  have "FromHex (''0x'' @ ?cs) = DecodeString ?cs"
    by (rule FromHex_0x) (simp add: cs_len)
  then have decode: "HexToAddress (''0x'' @ ?cs) = a"
    using len by (simp only: HexToAddress_def dec BytesToAddress_id)
  have tolower: "ToLower (''0x'' @ ?cs) = ''0x'' @ ?lo"
    using lower by (simp add: ToLower_def lower_char_def)
  show ?thesis
    using hex cs_len cs_nth digits decode tolower by blast
qed

text \<open>The sample address under the stand-in hash, evaluated.\<close>

theorem Address_Hex_checksum_witness:
  "Address_Hex sample_sum addr_ab = Some ''0xabcdeF0123456789AbCDEF0123456789abcdeF01''
   \<and> HexToAddress ''0xabcdeF0123456789AbCDEF0123456789abcdeF01'' = addr_ab
   \<and> ToLower ''0xabcdeF0123456789AbCDEF0123456789abcdeF01''
       = ''0x'' @ EncodeToString addr_ab"
proof -
  have len: "length addr_ab = AddressLength"
    by (simp add: addr_ab_def AddressLength_def)
  have sum: "length (sample_sum x) = 32" for x
    by (simp add: sample_sum_def)
  have val: "Address_Hex sample_sum addr_ab = Some ''0xabcdeF0123456789AbCDEF0123456789abcdeF01''"
    by code_simp
  from Address_Hex_checksum [of addr_ab sample_sum, OF len sum] val
  show ?thesis by auto
qed

section \<open>Properties of the copy routines\<close>

text \<open>
  C9. \<open>Asset.DeepCopy\<close> panics on a nil \<open>Total\<close>; otherwise it returns a record whose
  \<open>Description\<close> is empty (so it differs from a non-empty description of the original),
  whose \<open>ID\<close>, \<open>Owner\<close>, \<open>Name\<close>, \<open>Symbol\<close>, \<open>Decimals\<close> and \<open>CanChange\<close> are those of the
  original, and whose \<open>Total\<close> points to an integer with the original's value.
\<close>

theorem Asset_DeepCopy_drops_Description:
  "(Asset.Total u = None \<longrightarrow> Asset_DeepCopy u \<sigma> = None)
   \<and> (\<forall>p. Asset.Total u = Some p \<longrightarrow>
        (\<exists>c \<sigma>'. Asset_DeepCopy u \<sigma> = Some (c, \<sigma>')
           \<and> Asset.Description c = []
           \<and> (Asset.Description u \<noteq> [] \<longrightarrow> Asset.Description c \<noteq> Asset.Description u)
           \<and> Asset.ID c = Asset.ID u \<and> Asset.Owner c = Asset.Owner u
           \<and> Asset.Name c = Asset.Name u \<and> Asset.Symbol c = Asset.Symbol u
           \<and> Asset.Decimals c = Asset.Decimals u \<and> Asset.CanChange c = Asset.CanChange u
           \<and> (\<exists>q. Asset.Total c = Some q \<and> ints \<sigma>' q = ints \<sigma> p)))"
  by (auto simp: Asset_DeepCopy_def new_Int_def)

text \<open>The sample asset with the description \<open>https://fusion.org\<close> loses it in the copy.\<close>

theorem Asset_DeepCopy_drops_Description_witness:
  "\<exists>c \<sigma>'. Asset_DeepCopy asset1 store1 = Some (c, \<sigma>')
      \<and> Asset.Description asset1 = ''https://fusion.org'' \<and> Asset.Description c = []
      \<and> Asset.Name c = ''Fusion'' \<and> Asset.Symbol c = ''FSN'' \<and> Asset.Decimals c = 18
      \<and> Asset.Total c = Some 3 \<and> ints \<sigma>' 3 = 5000"
  using Asset_DeepCopy_drops_Description [of asset1 store1]
  by (auto simp: asset1_def store1_def Asset_DeepCopy_def new_Int_def)

lemma fold_append_single: "fold (\<lambda>t r. r @ [t]) ts r = r @ ts"
  by (induction ts arbitrary: r) simp_all

text \<open>
  C10. \<open>TicketSlice.DeepCopy\<close> returns nil for the nil slice and for the empty slice; for a
  slice that is not empty it returns a slice with the same elements in the same order.
\<close>

theorem TicketSlice_DeepCopy_nil_and_empty:
  "TicketSlice_DeepCopy None = None \<and> TicketSlice_DeepCopy (Some []) = None
   \<and> (ts \<noteq> [] \<longrightarrow> TicketSlice_DeepCopy (Some ts) = Some ts)"
  by (simp add: TicketSlice_DeepCopy_def fold_append_single)

text \<open>A slice of two tickets is copied element by element.\<close>

theorem TicketSlice_DeepCopy_nil_and_empty_witness:
  "TicketSlice_DeepCopy (Some [ticket1, ticket1\<lparr>Ticket.ID := replicate 32 2\<rparr>])
     = Some [ticket1, ticket1\<lparr>Ticket.ID := replicate 32 2\<rparr>]"
  using TicketSlice_DeepCopy_nil_and_empty [of "[ticket1, ticket1\<lparr>Ticket.ID := replicate 32 2\<rparr>]"]
  by simp

text \<open>
  C7 (what the code does). The copy of the one-element slice \<open>[ticket1]\<close> holds the same
  three pointers as the original. In \<open>store1\<close> the original's height, value and weight are
  100, 5000 and 7; after an update in place through each pointer of the copy's element, the
  original's element reads 999, 888 and 777: the integers are shared, not independent.
\<close>

theorem TicketSlice_DeepCopy_shares_integers:
  "(case TicketSlice_DeepCopy (Some [ticket1]) of
      None \<Rightarrow> False
    | Some r \<Rightarrow>
       (case (Ticket.Height (r ! 0), Ticket.Value (r ! 0), weight (r ! 0)) of
          (Some h, Some v, Some w) \<Rightarrow>
             ints store1 (the (Ticket.Height ticket1)) = 100
             \<and> ints store1 (the (Ticket.Value ticket1)) = 5000
             \<and> ints store1 (the (weight ticket1)) = 7
             \<and> ints (Int_Set h 999 store1) (the (Ticket.Height ticket1)) = 999
             \<and> ints (Int_Set v 888 store1) (the (Ticket.Value ticket1)) = 888
             \<and> ints (Int_Set w 777 store1) (the (weight ticket1)) = 777
        | _ \<Rightarrow> False))"
  by (simp add: TicketSlice_DeepCopy_def ticket1_def store1_def Int_Set_def)

text \<open>
  The sibling \<open>Ticket.DeepCopy\<close>, which \<open>TicketSlice.DeepCopy\<close> does not call, gives the
  copy a height and a value of its own: an update through the copy's pointers leaves the
  original's integers as they were.
\<close>

lemma Ticket_DeepCopy_independent:
  assumes "Ticket.Height t = Some hp" "Ticket.Value t = Some vp"
    and "hp < fresh \<sigma>" "vp < fresh \<sigma>"
  shows "\<exists>c \<sigma>' hq vq. Ticket_DeepCopy t \<sigma> = Some (c, \<sigma>')
      \<and> Ticket.Height c = Some hq \<and> Ticket.Value c = Some vq
      \<and> hq \<noteq> hp \<and> vq \<noteq> vp \<and> hq \<noteq> vp \<and> vq \<noteq> hp
      \<and> ints \<sigma>' hq = ints \<sigma> hp \<and> ints \<sigma>' vq = ints \<sigma> vp
      \<and> ints (Int_Set hq x \<sigma>') hp = ints \<sigma> hp
      \<and> ints (Int_Set vq x \<sigma>') vp = ints \<sigma> vp"
  using assms
  by (auto simp: Ticket_DeepCopy_def new_Int_def Int_Set_def Let_def)

end
